theory Spec2Isabelle
  imports Main
begin

section \<open>Data model\<close>

text \<open>
  The validator of \<^verbatim>\<open>src/transaction-validator.ts\<close> works on the interfaces of
  \<^verbatim>\<open>./types\<close> and \<^verbatim>\<open>./errors\<close>. Their fields are the ones the validator reads.
  Amounts and timestamps are integral and are modelled as \<open>int\<close>; an output index is a
  non-negative integer, \<open>nat\<close>; strings are \<open>string\<close>. The UTXO record and the transaction
  both have a field \<^verbatim>\<open>id\<close>, and a UTXO and an output both have \<^verbatim>\<open>amount\<close> and
  \<^verbatim>\<open>recipient\<close>: the fields of the UTXO are prefixed with \<open>utxo_\<close>, the transaction's
  identifier is \<open>tx_id\<close>.
\<close>

record UtxoId =
  txId :: string
  outputIndex :: nat

record UTXO =
  utxo_id :: UtxoId
  utxo_amount :: int
  utxo_recipient :: string

record TransactionInput =
  utxoId :: UtxoId
  owner :: string
  signature :: string

record TransactionOutput =
  amount :: int
  recipient :: string

record Transaction =
  tx_id :: string
  inputs :: "TransactionInput list"
  outputs :: "TransactionOutput list"
  timestamp :: int

datatype VALIDATION_ERRORS =
  UTXO_NOT_FOUND | NEGATIVE_AMOUNT | AMOUNT_MISMATCH | INVALID_SIGNATURE | DOUBLE_SPENDING

record ValidationError =
  kind :: VALIDATION_ERRORS
  message :: string

record ValidationResult =
  valid :: bool
  errors :: "ValidationError list"

text \<open>
  Modelled from the spec: \<^verbatim>\<open>createValidationError\<close> of \<^verbatim>\<open>./errors\<close>, which builds the
  error object \<open>{kind, message}\<close> from an error code and a message.
\<close>

definition createValidationError :: "VALIDATION_ERRORS \<Rightarrow> string \<Rightarrow> ValidationError" where
  "createValidationError c m = \<lparr>kind = c, message = m\<rparr>"

text \<open>
  The two collaborators are parameters. The pool is given by its point lookup
  \<^verbatim>\<open>getUTXO(txId, outputIndex)\<close>, with \<open>None\<close> for an absent (falsy) answer; the
  signature verifier is \<^verbatim>\<open>verify(message, signature, key)\<close>.
\<close>

type_synonym UTXOPoolManager = "string \<Rightarrow> nat \<Rightarrow> UTXO option"

type_synonym verifier = "string \<Rightarrow> string \<Rightarrow> string \<Rightarrow> bool"

section \<open>Rendering of numbers and strings\<close>

text \<open>
  A template literal renders an integral number in decimal, with a leading minus sign
  when it is negative. (JavaScript does so for the integers below \<open>10\<^sup>2\<^sup>1\<close> in
  absolute value that a double holds exactly; the model renders every integer this way.)
\<close>

definition digit_char :: "nat \<Rightarrow> char" where
  "digit_char d = ''0123456789'' ! d"

fun show_nat :: "nat \<Rightarrow> string" where
  "show_nat n =
     (if n < 10 then [digit_char n] else show_nat (n div 10) @ [digit_char (n mod 10)])"

declare show_nat.simps [simp del]

definition show_int :: "int \<Rightarrow> string" where
  "show_int i = (if i < 0 then ''-'' @ show_nat (nat (- i)) else show_nat (nat i))"

text \<open>
  \<^verbatim>\<open>JSON.stringify\<close> on the values the validator serialises: strings, integral
  numbers, arrays and plain objects with their keys in insertion order. A string is
  quoted, with the double quote, the backslash and the control characters escaped;
  every other character is copied.
\<close>

datatype json =
  JString string
| JNumber int
| JArray "json list"
| JObject "(string \<times> json) list"

definition hex_digit :: "nat \<Rightarrow> char" where
  "hex_digit d = ''0123456789abcdef'' ! d"

definition quote_char :: "char \<Rightarrow> string" where
  "quote_char c =
     (if c = CHR 0x08 then [CHR 0x5C, CHR ''b'']
      else if c = CHR 0x09 then [CHR 0x5C, CHR ''t'']
      else if c = CHR 0x0A then [CHR 0x5C, CHR ''n'']
      else if c = CHR 0x0C then [CHR 0x5C, CHR ''f'']
      else if c = CHR 0x0D then [CHR 0x5C, CHR ''r'']
      else if c = CHR 0x22 then [CHR 0x5C, CHR 0x22]
      else if c = CHR 0x5C then [CHR 0x5C, CHR 0x5C]
      else if (of_char c :: nat) < 32
        then [CHR 0x5C, CHR ''u'', CHR ''0'', CHR ''0'',
              hex_digit ((of_char c :: nat) div 16), hex_digit ((of_char c :: nat) mod 16)]
      else [c])"

definition quote_string :: "string \<Rightarrow> string" where
  "quote_string s = [CHR 0x22] @ concat (map quote_char s) @ [CHR 0x22]"

fun join_with :: "string \<Rightarrow> string list \<Rightarrow> string" where
  "join_with sep [] = []"
| "join_with sep [x] = x"
| "join_with sep (x # y # ys) = x @ sep @ join_with sep (y # ys)"

fun stringify :: "json \<Rightarrow> string" where
  "stringify (JString s) = quote_string s"
| "stringify (JNumber n) = show_int n"
| "stringify (JArray xs) = ''['' @ join_with '','' (map stringify xs) @ '']''"
| "stringify (JObject kvs) =
     ''{'' @ join_with '','' (map (\<lambda>(k, v). quote_string k @ '':'' @ stringify v) kvs) @ ''}''"

section \<open>The signing payload\<close>

text \<open>
  \<^verbatim>\<open>createTransactionDataForSigning\<close> builds the object \<^verbatim>\<open>unsignedTx\<close> and serialises
  it. Each input is mapped to a fresh object with the two keys \<^verbatim>\<open>utxoId\<close> and
  \<^verbatim>\<open>owner\<close>; the identifier and the outputs are serialised as they are, with the keys of
  their interfaces.
\<close>

definition json_of_UtxoId :: "UtxoId \<Rightarrow> json" where
  "json_of_UtxoId u =
     JObject [(''txId'', JString (txId u)), (''outputIndex'', JNumber (int (outputIndex u)))]"

definition json_of_TransactionOutput :: "TransactionOutput \<Rightarrow> json" where
  "json_of_TransactionOutput out =
     JObject [(''amount'', JNumber (amount out)), (''recipient'', JString (recipient out))]"

definition unsignedInput :: "TransactionInput \<Rightarrow> json" where
  "unsignedInput input =
     JObject [(''utxoId'', json_of_UtxoId (utxoId input)), (''owner'', JString (owner input))]"

definition unsignedTx :: "Transaction \<Rightarrow> json" where
  "unsignedTx transaction =
     JObject [(''id'', JString (tx_id transaction)),
              (''inputs'', JArray (map unsignedInput (inputs transaction))),
              (''outputs'', JArray (map json_of_TransactionOutput (outputs transaction))),
              (''timestamp'', JNumber (timestamp transaction))]"

definition createTransactionDataForSigning :: "Transaction \<Rightarrow> string" where
  "createTransactionDataForSigning transaction = stringify (unsignedTx transaction)"

section \<open>The validator\<close>

text \<open>
  The method reads the field \<^verbatim>\<open>this.utxoPool\<close> and its argument \<^verbatim>\<open>transaction\<close>, and
  updates two locals, the array \<^verbatim>\<open>errors\<close> and the set \<^verbatim>\<open>seenUTXOs\<close>. All four are
  in the state that the statements of the method pass on, so that what the method writes
  and what it leaves alone is a property of the model.
\<close>

record vstate =
  utxoPool :: UTXOPoolManager
  transaction :: Transaction
  errors_st :: "ValidationError list"
  seenUTXOs :: "string set"

definition getUTXO :: "vstate \<Rightarrow> TransactionInput \<Rightarrow> UTXO option" where
  "getUTXO s input = utxoPool s (txId (utxoId input)) (outputIndex (utxoId input))"

definition push :: "ValidationError \<Rightarrow> vstate \<Rightarrow> vstate" where
  "push e s = s\<lparr>errors_st := errors_st s @ [e]\<rparr>"

definition utxoKey :: "UtxoId \<Rightarrow> string" where
  "utxoKey u = txId u @ '':'' @ show_nat (outputIndex u)"

text \<open>
  Lines 29 to 33: the callback over the outputs, with the running
  \<^verbatim>\<open>totalOutputValue\<close>.
\<close>

fun output_step :: "TransactionOutput \<Rightarrow> int \<times> vstate \<Rightarrow> int \<times> vstate" where
  "output_step output (totalOutputValue, s) =
     (totalOutputValue + amount output,
      if amount output \<le> 0
      then push (createValidationError NEGATIVE_AMOUNT
                  (''Output amount must be positive: '' @ show_int (amount output))) s
      else s)"

text \<open>
  Lines 34 to 41: the callback over the inputs that adds up \<^verbatim>\<open>totalInputValue\<close>. The
  message interpolates \<^verbatim>\<open>utxo.id\<close>, an object, which a template literal renders as
  \<^verbatim>\<open>[object Object]\<close>.
\<close>

fun amount_step :: "TransactionInput \<Rightarrow> int \<times> vstate \<Rightarrow> int \<times> vstate" where
  "amount_step input (totalInputValue, s) =
     (case getUTXO s input of
        None \<Rightarrow> (totalInputValue, s)
      | Some utxo \<Rightarrow>
          (totalInputValue + utxo_amount utxo,
           if utxo_amount utxo \<le> 0
           then push (createValidationError NEGATIVE_AMOUNT
                       ''UTXO amount must be positive: [object Object]'') s
           else s))"

text \<open>Lines 42 to 44: the balance check.\<close>

definition balance_check :: "int \<Rightarrow> int \<Rightarrow> vstate \<Rightarrow> vstate" where
  "balance_check totalInputValue totalOutputValue s =
     (if totalInputValue \<noteq> totalOutputValue
      then push (createValidationError AMOUNT_MISMATCH
                  (''Input value '' @ show_int totalInputValue
                   @ '' is different than output value '' @ show_int totalOutputValue)) s
      else s)"

text \<open>Lines 45 to 55: the callback over the inputs that verifies the signatures.\<close>

definition signature_step :: "verifier \<Rightarrow> TransactionInput \<Rightarrow> vstate \<Rightarrow> vstate" where
  "signature_step verify input s =
     (case getUTXO s input of
        None \<Rightarrow> s
      | Some utxo \<Rightarrow>
          (let transactionData = createTransactionDataForSigning (transaction s);
               isValid = verify transactionData (signature input) (utxo_recipient utxo)
           in if \<not> isValid
              then push (createValidationError INVALID_SIGNATURE
                          (''Invalid signature for UTXO: '' @ utxoKey (utxoId input))) s
              else s))"

text \<open>Lines 56 to 63: the check against the identifiers seen so far.\<close>

definition double_spend_step :: "TransactionInput \<Rightarrow> vstate \<Rightarrow> vstate" where
  "double_spend_step input s =
     (let k = utxoKey (utxoId input);
          s1 = (if k \<in> seenUTXOs s
                then push (createValidationError DOUBLE_SPENDING
                            (''UTXO used more than once: '' @ k)) s
                else s)
      in s1\<lparr>seenUTXOs := insert k (seenUTXOs s1)\<rparr>)"

text \<open>
  Lines 22 to 64: the callback of the outer \<^verbatim>\<open>forEach\<close> over the inputs. Its body
  holds the existence check of the input, then the loop over the outputs, the loop over
  all the inputs that adds up their amounts, the balance check, the loop over all the
  inputs that verifies the signatures, and the double-spend check of the input.
\<close>

definition existence_check :: "TransactionInput \<Rightarrow> vstate \<Rightarrow> vstate" where
  "existence_check input s =
     (case getUTXO s input of
        None \<Rightarrow> push (createValidationError UTXO_NOT_FOUND
                        (''UTXO not found: '' @ utxoKey (utxoId input))) s
      | Some utxo \<Rightarrow> s)"

definition input_step :: "verifier \<Rightarrow> TransactionInput \<Rightarrow> vstate \<Rightarrow> vstate" where
  "input_step verify input s =
     (let s1 = existence_check input s;
          (totalOutputValue, s2) = fold output_step (outputs (transaction s1)) (0, s1);
          (totalInputValue, s3) = fold amount_step (inputs (transaction s2)) (0, s2);
          s4 = balance_check totalInputValue totalOutputValue s3;
          s5 = fold (signature_step verify) (inputs (transaction s4)) s4
      in double_spend_step input s5)"

text \<open>
  The body of the method from a state: the outer loop. The method itself starts from
  fresh locals and returns the result object; \<open>validateTransaction_call\<close> also returns
  the pool and the transaction as the call leaves them.
\<close>

definition validateTransaction_body :: "verifier \<Rightarrow> vstate \<Rightarrow> vstate" where
  "validateTransaction_body verify s = fold (input_step verify) (inputs (transaction s)) s"

definition initial_state :: "UTXOPoolManager \<Rightarrow> Transaction \<Rightarrow> vstate" where
  "initial_state pool tx =
     \<lparr>utxoPool = pool, transaction = tx, errors_st = [], seenUTXOs = {}\<rparr>"

definition result_of :: "vstate \<Rightarrow> ValidationResult" where
  "result_of s = \<lparr>valid = (length (errors_st s) = 0), errors = errors_st s\<rparr>"

definition validateTransaction_call ::
  "verifier \<Rightarrow> UTXOPoolManager \<Rightarrow> Transaction
     \<Rightarrow> ValidationResult \<times> UTXOPoolManager \<times> Transaction" where
  "validateTransaction_call verify pool tx =
     (let s = validateTransaction_body verify (initial_state pool tx)
      in (result_of s, utxoPool s, transaction s))"

definition validateTransaction ::
  "verifier \<Rightarrow> UTXOPoolManager \<Rightarrow> Transaction \<Rightarrow> ValidationResult" where
  "validateTransaction verify pool tx = fst (validateTransaction_call verify pool tx)"

section \<open>What a run appends to the error list\<close>

text \<open>
  The functions of this section describe, as lists, the errors that the loops of the
  validator append. They are proved equal to what the state-passing model computes and
  carry the proofs about it.
\<close>

definition lookup :: "UTXOPoolManager \<Rightarrow> TransactionInput \<Rightarrow> UTXO option" where
  "lookup pool input = pool (txId (utxoId input)) (outputIndex (utxoId input))"

definition existence_errors ::
  "UTXOPoolManager \<Rightarrow> TransactionInput \<Rightarrow> ValidationError list" where
  "existence_errors pool input =
     (case lookup pool input of
        None \<Rightarrow> [createValidationError UTXO_NOT_FOUND
                    (''UTXO not found: '' @ utxoKey (utxoId input))]
      | Some utxo \<Rightarrow> [])"

definition output_errors :: "TransactionOutput list \<Rightarrow> ValidationError list" where
  "output_errors outs =
     map (\<lambda>output. createValidationError NEGATIVE_AMOUNT
                     (''Output amount must be positive: '' @ show_int (amount output)))
         (filter (\<lambda>output. amount output \<le> 0) outs)"

definition total_output :: "TransactionOutput list \<Rightarrow> int" where
  "total_output outs = sum_list (map amount outs)"

definition resolved :: "UTXOPoolManager \<Rightarrow> TransactionInput list \<Rightarrow> UTXO list" where
  "resolved pool ins =
     concat (map (\<lambda>input. case lookup pool input of None \<Rightarrow> [] | Some utxo \<Rightarrow> [utxo]) ins)"

definition total_input :: "UTXOPoolManager \<Rightarrow> TransactionInput list \<Rightarrow> int" where
  "total_input pool ins = sum_list (map utxo_amount (resolved pool ins))"

definition utxo_errors :: "UTXOPoolManager \<Rightarrow> TransactionInput list \<Rightarrow> ValidationError list" where
  "utxo_errors pool ins =
     map (\<lambda>utxo. createValidationError NEGATIVE_AMOUNT
                   ''UTXO amount must be positive: [object Object]'')
         (filter (\<lambda>utxo. utxo_amount utxo \<le> 0) (resolved pool ins))"

definition mismatch_errors :: "int \<Rightarrow> int \<Rightarrow> ValidationError list" where
  "mismatch_errors ti to =
     (if ti \<noteq> to
      then [createValidationError AMOUNT_MISMATCH
              (''Input value '' @ show_int ti
               @ '' is different than output value '' @ show_int to)]
      else [])"

definition failed_signatures ::
  "verifier \<Rightarrow> UTXOPoolManager \<Rightarrow> string \<Rightarrow> TransactionInput list \<Rightarrow> TransactionInput list" where
  "failed_signatures verify pool payload ins =
     filter (\<lambda>input. case lookup pool input of
                None \<Rightarrow> False
              | Some utxo \<Rightarrow> \<not> verify payload (signature input) (utxo_recipient utxo)) ins"

definition signature_errors ::
  "verifier \<Rightarrow> UTXOPoolManager \<Rightarrow> string \<Rightarrow> TransactionInput list \<Rightarrow> ValidationError list" where
  "signature_errors verify pool payload ins =
     map (\<lambda>input. createValidationError INVALID_SIGNATURE
                    (''Invalid signature for UTXO: '' @ utxoKey (utxoId input)))
         (failed_signatures verify pool payload ins)"

definition inner_errors ::
  "verifier \<Rightarrow> UTXOPoolManager \<Rightarrow> Transaction \<Rightarrow> ValidationError list" where
  "inner_errors verify pool tx =
     output_errors (outputs tx) @ utxo_errors pool (inputs tx)
     @ mismatch_errors (total_input pool (inputs tx)) (total_output (outputs tx))
     @ signature_errors verify pool (createTransactionDataForSigning tx) (inputs tx)"

definition double_errors :: "string set \<Rightarrow> TransactionInput \<Rightarrow> ValidationError list" where
  "double_errors seen input =
     (if utxoKey (utxoId input) \<in> seen
      then [createValidationError DOUBLE_SPENDING
              (''UTXO used more than once: '' @ utxoKey (utxoId input))]
      else [])"

fun run_errors ::
  "verifier \<Rightarrow> UTXOPoolManager \<Rightarrow> Transaction \<Rightarrow> string set \<Rightarrow> TransactionInput list
     \<Rightarrow> ValidationError list" where
  "run_errors verify pool tx seen [] = []"
| "run_errors verify pool tx seen (input # ins) =
     existence_errors pool input @ inner_errors verify pool tx @ double_errors seen input
     @ run_errors verify pool tx (insert (utxoKey (utxoId input)) seen) ins"

text \<open>Counting the errors of a kind, with a given message or with any.\<close>

definition count_errors :: "VALIDATION_ERRORS \<Rightarrow> string \<Rightarrow> ValidationError list \<Rightarrow> nat" where
  "count_errors k m es = length (filter (\<lambda>e. kind e = k \<and> message e = m) es)"

definition count_kind :: "VALIDATION_ERRORS \<Rightarrow> ValidationError list \<Rightarrow> nat" where
  "count_kind k es = length (filter (\<lambda>e. kind e = k) es)"

definition occurrences :: "UtxoId \<Rightarrow> TransactionInput list \<Rightarrow> nat" where
  "occurrences u ins = length (filter (\<lambda>input. utxoId input = u) ins)"

definition double_spending_message :: "UtxoId \<Rightarrow> string" where
  "double_spending_message u = ''UTXO used more than once: '' @ utxoKey u"

definition not_found_message :: "UtxoId \<Rightarrow> string" where
  "not_found_message u = ''UTXO not found: '' @ utxoKey u"

definition invalid_signature_message :: "UtxoId \<Rightarrow> string" where
  "invalid_signature_message u = ''Invalid signature for UTXO: '' @ utxoKey u"


definition amounts_balance :: "UTXOPoolManager \<Rightarrow> Transaction \<Rightarrow> bool" where
  "amounts_balance pool tx = (total_input pool (inputs tx) = total_output (outputs tx))"









section \<open>Example inputs\<close>

text \<open>
  A pool with the two unspent outputs \<open>tx1:0\<close> (100, owned by \<open>K\<close>) and \<open>tx1:1\<close>
  (50, owned by \<open>L\<close>), and a verifier that accepts the signature \<open>sig-\<close> followed by
  the key.
\<close>

definition example_pool :: UTXOPoolManager where
  "example_pool t n =
     (if t = ''tx1'' \<and> n = 0
      then Some \<lparr>utxo_id = \<lparr>txId = ''tx1'', outputIndex = 0\<rparr>, utxo_amount = 100,
                 utxo_recipient = ''K''\<rparr>
      else if t = ''tx1'' \<and> n = 1
      then Some \<lparr>utxo_id = \<lparr>txId = ''tx1'', outputIndex = 1\<rparr>, utxo_amount = 50,
                 utxo_recipient = ''L''\<rparr>
      else None)"

definition example_verify :: verifier where
  "example_verify m sg k = (sg = ''sig-'' @ k)"

definition input_K :: TransactionInput where
  "input_K = \<lparr>utxoId = \<lparr>txId = ''tx1'', outputIndex = 0\<rparr>, owner = ''K'', signature = ''sig-K''\<rparr>"

definition input_L :: TransactionInput where
  "input_L = \<lparr>utxoId = \<lparr>txId = ''tx1'', outputIndex = 1\<rparr>, owner = ''L'', signature = ''sig-L''\<rparr>"

definition input_K_garbage :: TransactionInput where
  "input_K_garbage =
     \<lparr>utxoId = \<lparr>txId = ''tx1'', outputIndex = 0\<rparr>, owner = ''K'', signature = ''garbage''\<rparr>"

definition input_missing :: TransactionInput where
  "input_missing =
     \<lparr>utxoId = \<lparr>txId = ''tx9'', outputIndex = 7\<rparr>, owner = ''K'', signature = ''sig-K''\<rparr>"

definition make_tx :: "TransactionInput list \<Rightarrow> int list \<Rightarrow> Transaction" where
  "make_tx ins amounts =
     \<lparr>tx_id = ''t1'', inputs = ins,
      outputs = map (\<lambda>a. \<lparr>amount = a, recipient = ''B''\<rparr>) amounts, timestamp = 1700\<rparr>"

lemmas validator_defs =
  validateTransaction_def validateTransaction_call_def validateTransaction_body_def
  initial_state_def result_of_def input_step_def existence_check_def getUTXO_def
  balance_check_def signature_step_def double_spend_step_def push_def
  createValidationError_def utxoKey_def show_nat.simps show_int_def digit_char_def Let_def

lemmas example_defs =
  example_pool_def example_verify_def input_K_def input_L_def input_K_garbage_def
  input_missing_def make_tx_def

section \<open>The model computes the described error lists\<close>

lemma getUTXO_lookup: "getUTXO s input = lookup (utxoPool s) input"
  by (simp add: getUTXO_def lookup_def)

lemma existence_check_eq:
  "existence_check input s = s\<lparr>errors_st := errors_st s @ existence_errors (utxoPool s) input\<rparr>"
  by (simp add: existence_check_def existence_errors_def getUTXO_lookup push_def
        split: option.splits)

lemma fold_output_step:
  "fold output_step outs (t, s) =
     (t + total_output outs, s\<lparr>errors_st := errors_st s @ output_errors outs\<rparr>)"
  by (induction outs arbitrary: t s) (simp_all add: total_output_def output_errors_def push_def)

lemma fold_amount_step:
  "fold amount_step ins (t, s) =
     (t + total_input (utxoPool s) ins,
      s\<lparr>errors_st := errors_st s @ utxo_errors (utxoPool s) ins\<rparr>)"
  by (induction ins arbitrary: t s)
     (simp_all add: total_input_def utxo_errors_def resolved_def push_def getUTXO_lookup
        split: option.splits)

lemma balance_check_eq:
  "balance_check ti to s = s\<lparr>errors_st := errors_st s @ mismatch_errors ti to\<rparr>"
  by (simp add: balance_check_def mismatch_errors_def push_def)

lemma signature_errors_Cons:
  "signature_errors verify pool payload (input # ins) =
     signature_errors verify pool payload [input] @ signature_errors verify pool payload ins"
  by (simp add: signature_errors_def failed_signatures_def)

lemma signature_step_eq:
  "signature_step verify input s =
     s\<lparr>errors_st := errors_st s
          @ signature_errors verify (utxoPool s)
              (createTransactionDataForSigning (transaction s)) [input]\<rparr>"
  by (simp add: signature_errors_def failed_signatures_def signature_step_def push_def
        getUTXO_lookup Let_def split: option.splits)

lemma fold_signature_step:
  "fold (signature_step verify) ins s =
     s\<lparr>errors_st := errors_st s
          @ signature_errors verify (utxoPool s)
              (createTransactionDataForSigning (transaction s)) ins\<rparr>"
proof (induction ins arbitrary: s)
  case Nil
  show ?case by (simp add: signature_errors_def failed_signatures_def)
next
  case (Cons input ins)
  let ?s1 = "signature_step verify input s"
  have "fold (signature_step verify) (input # ins) s = fold (signature_step verify) ins ?s1"
    by simp
  also have "\<dots> = ?s1\<lparr>errors_st := errors_st ?s1
          @ signature_errors verify (utxoPool ?s1)
              (createTransactionDataForSigning (transaction ?s1)) ins\<rparr>"
    by (rule Cons.IH)
  also have "\<dots> = s\<lparr>errors_st := errors_st s
          @ signature_errors verify (utxoPool s)
              (createTransactionDataForSigning (transaction s)) (input # ins)\<rparr>"
    by (simp add: signature_step_eq signature_errors_Cons [of _ _ _ input ins])
  finally show ?case .
qed

lemma double_spend_step_eq:
  "double_spend_step input s =
     s\<lparr>errors_st := errors_st s @ double_errors (seenUTXOs s) input,
       seenUTXOs := insert (utxoKey (utxoId input)) (seenUTXOs s)\<rparr>"
  by (simp add: double_spend_step_def double_errors_def push_def Let_def)

lemma input_step_eq:
  "input_step verify input s =
     s\<lparr>errors_st := errors_st s @ existence_errors (utxoPool s) input
          @ inner_errors verify (utxoPool s) (transaction s)
          @ double_errors (seenUTXOs s) input,
       seenUTXOs := insert (utxoKey (utxoId input)) (seenUTXOs s)\<rparr>"
  by (simp add: input_step_def existence_check_eq fold_output_step fold_amount_step
        balance_check_eq fold_signature_step double_spend_step_eq inner_errors_def)

lemma fold_input_step:
  "fold (input_step verify) ins s =
     s\<lparr>errors_st := errors_st s
          @ run_errors verify (utxoPool s) (transaction s) (seenUTXOs s) ins,
       seenUTXOs := seenUTXOs s \<union> utxoKey ` utxoId ` set ins\<rparr>"
proof (induction ins arbitrary: s)
  case Nil
  show ?case by simp
next
  case (Cons input ins)
  let ?s1 = "input_step verify input s"
  have "fold (input_step verify) (input # ins) s = fold (input_step verify) ins ?s1"
    by simp
  also have "\<dots> = ?s1\<lparr>errors_st := errors_st ?s1
          @ run_errors verify (utxoPool ?s1) (transaction ?s1) (seenUTXOs ?s1) ins,
        seenUTXOs := seenUTXOs ?s1 \<union> utxoKey ` utxoId ` set ins\<rparr>"
    by (rule Cons.IH)
  also have "\<dots> = s\<lparr>errors_st := errors_st s
          @ run_errors verify (utxoPool s) (transaction s) (seenUTXOs s) (input # ins),
        seenUTXOs := seenUTXOs s \<union> utxoKey ` utxoId ` set (input # ins)\<rparr>"
    by (simp add: input_step_eq)
  finally show ?case .
qed

lemma validateTransaction_body_eq:
  "validateTransaction_body verify s =
     s\<lparr>errors_st := errors_st s
          @ run_errors verify (utxoPool s) (transaction s) (seenUTXOs s) (inputs (transaction s)),
       seenUTXOs := seenUTXOs s \<union> utxoKey ` utxoId ` set (inputs (transaction s))\<rparr>"
  by (simp add: validateTransaction_body_def fold_input_step)

lemma errors_validateTransaction:
  "errors (validateTransaction verify pool tx) = run_errors verify pool tx {} (inputs tx)"
  by (simp add: validateTransaction_def validateTransaction_call_def
        validateTransaction_body_eq initial_state_def result_of_def)


section \<open>The key of an identifier determines the identifier\<close>

lemma digit_cases:
  "d < 10 \<Longrightarrow>
     d = 0 \<or> d = 1 \<or> d = 2 \<or> d = 3 \<or> d = 4 \<or> d = 5 \<or> d = 6 \<or> d = 7 \<or> d = 8 \<or> d = (9::nat)"
  by arith

lemma of_char_digit_char: "d < 10 \<Longrightarrow> (of_char (digit_char d) :: nat) = 48 + d"
  using digit_cases [of d] by (auto simp add: digit_char_def)

lemma digit_char_inj:
  assumes "d < 10" and "e < 10" and "digit_char d = digit_char e"
  shows "d = e"
proof -
  have "(of_char (digit_char d) :: nat) = of_char (digit_char e)"
    by (simp only: assms(3))
  then have "48 + d = 48 + e"
    by (simp only: of_char_digit_char [OF assms(1)] of_char_digit_char [OF assms(2)])
  then show ?thesis by simp
qed

lemma digit_char_not_colon: "d < 10 \<Longrightarrow> digit_char d \<noteq> CHR '':''"
  using of_char_digit_char [of d] by auto

lemma show_nat_not_Nil: "show_nat n \<noteq> []"
  by (subst show_nat.simps) simp

lemma colon_notin_show_nat: "CHR '':'' \<notin> set (show_nat n)"
proof (induction n rule: show_nat.induct)
  case (1 n)
  show ?case
  proof (cases "n < 10")
    case True
    then show ?thesis
      using digit_char_not_colon [of n] by (subst show_nat.simps) auto
  next
    case False
    then show ?thesis
      using "1.IH" digit_char_not_colon [of "n mod 10"] by (subst show_nat.simps) auto
  qed
qed

lemma show_nat_inj: "show_nat m = show_nat n \<Longrightarrow> m = n"
proof (induction m arbitrary: n rule: show_nat.induct)
  case (1 m)
  show ?case
  proof (cases "m < 10")
    case m: True
    show ?thesis
    proof (cases "n < 10")
      case True
      with m "1.prems" show ?thesis
        by (simp add: show_nat.simps [of m] show_nat.simps [of n] digit_char_inj)
    next
      case False
      with m "1.prems" show ?thesis
        using show_nat_not_Nil [of "n div 10"]
        by (simp add: show_nat.simps [of m] show_nat.simps [of n])
    qed
  next
    case m: False
    show ?thesis
    proof (cases "n < 10")
      case True
      with m "1.prems" show ?thesis
        using show_nat_not_Nil [of "m div 10"]
        by (simp add: show_nat.simps [of m] show_nat.simps [of n])
    next
      case False
      with m "1.prems" have eq: "show_nat (m div 10) = show_nat (n div 10)"
        and d: "digit_char (m mod 10) = digit_char (n mod 10)"
        by (simp_all add: show_nat.simps [of m] show_nat.simps [of n])
      from "1.IH" [OF m eq] have "m div 10 = n div 10" .
      moreover from d have "m mod 10 = n mod 10"
        by (intro digit_char_inj) simp_all
      ultimately show ?thesis
        by (metis div_mult_mod_eq)
    qed
  qed
qed

lemma append_sep_eq:
  "c \<notin> set x \<Longrightarrow> c \<notin> set y \<Longrightarrow> a @ c # x = b @ c # y \<Longrightarrow> a = b \<and> x = y"
proof (induction a arbitrary: b)
  case Nil
  then show ?case by (cases b) auto
next
  case (Cons h a)
  then show ?case by (cases b) auto
qed

lemma utxoKey_eq_iff: "utxoKey a = utxoKey b \<longleftrightarrow> a = (b::UtxoId)"
proof
  assume "utxoKey a = utxoKey b"
  then have "txId a @ CHR '':'' # show_nat (outputIndex a)
               = txId b @ CHR '':'' # show_nat (outputIndex b)"
    by (simp add: utxoKey_def)
  then have "txId a = txId b \<and> show_nat (outputIndex a) = show_nat (outputIndex b)"
    by (rule append_sep_eq [OF colon_notin_show_nat colon_notin_show_nat])
  then show "a = b"
    by (auto dest: show_nat_inj)
qed simp

section \<open>Counting errors\<close>

lemma count_errors_append [simp]:
  "count_errors k m (xs @ ys) = count_errors k m xs + count_errors k m ys"
  by (simp add: count_errors_def)

lemma count_errors_Nil [simp]: "count_errors k m [] = 0"
  by (simp add: count_errors_def)

lemma count_kind_append [simp]: "count_kind k (xs @ ys) = count_kind k xs + count_kind k ys"
  by (simp add: count_kind_def)

lemma count_kind_Nil [simp]: "count_kind k [] = 0"
  by (simp add: count_kind_def)

lemma count_errors_kind_0: "count_kind k es = 0 \<Longrightarrow> count_errors k m es = 0"
  by (auto simp add: count_kind_def count_errors_def filter_empty_conv)

lemma filter_kind_0: "count_kind k es = 0 \<Longrightarrow> filter (\<lambda>e. kind e = k) es = []"
  by (simp add: count_kind_def)

lemma count_kind_existence:
  "count_kind k (existence_errors pool input) =
     (if k = UTXO_NOT_FOUND \<and> lookup pool input = None then 1 else 0)"
  by (simp add: count_kind_def existence_errors_def createValidationError_def
        split: option.splits)

lemma count_kind_output:
  "count_kind k (output_errors outs) =
     (if k = NEGATIVE_AMOUNT then length (filter (\<lambda>output. amount output \<le> 0) outs) else 0)"
  by (simp add: count_kind_def output_errors_def createValidationError_def filter_map comp_def)

lemma count_kind_utxo:
  "count_kind k (utxo_errors pool ins) =
     (if k = NEGATIVE_AMOUNT
      then length (filter (\<lambda>utxo. utxo_amount utxo \<le> 0) (resolved pool ins)) else 0)"
  by (simp add: count_kind_def utxo_errors_def createValidationError_def filter_map comp_def)

lemma count_kind_mismatch:
  "count_kind k (mismatch_errors ti to) = (if k = AMOUNT_MISMATCH \<and> ti \<noteq> to then 1 else 0)"
  by (simp add: count_kind_def mismatch_errors_def createValidationError_def)

lemma count_kind_signature:
  "count_kind k (signature_errors verify pool payload ins) =
     (if k = INVALID_SIGNATURE then length (failed_signatures verify pool payload ins) else 0)"
  by (simp add: count_kind_def signature_errors_def createValidationError_def filter_map comp_def)

lemma count_kind_double:
  "count_kind k (double_errors seen input) =
     (if k = DOUBLE_SPENDING \<and> utxoKey (utxoId input) \<in> seen then 1 else 0)"
  by (simp add: count_kind_def double_errors_def createValidationError_def)

lemma count_kind_inner:
  "count_kind k (inner_errors verify pool tx) =
     (if k = NEGATIVE_AMOUNT
      then length (filter (\<lambda>output. amount output \<le> 0) (outputs tx))
           + length (filter (\<lambda>utxo. utxo_amount utxo \<le> 0) (resolved pool (inputs tx)))
      else if k = AMOUNT_MISMATCH
      then (if total_input pool (inputs tx) \<noteq> total_output (outputs tx) then 1 else 0)
      else if k = INVALID_SIGNATURE
      then length (failed_signatures verify pool (createTransactionDataForSigning tx) (inputs tx))
      else 0)"
  by (simp add: inner_errors_def count_kind_output count_kind_utxo count_kind_mismatch
        count_kind_signature)

lemma count_kind_run:
  "count_kind k (run_errors verify pool tx seen ins) =
     length ins * count_kind k (inner_errors verify pool tx)
     + (if k = UTXO_NOT_FOUND then length (filter (\<lambda>input. lookup pool input = None) ins)
        else 0)
     + (if k = DOUBLE_SPENDING then count_kind k (run_errors verify pool tx seen ins) else 0)"
proof (induction ins arbitrary: seen)
  case Nil
  show ?case by simp
next
  case (Cons input ins)
  show ?case
    by (cases "k = DOUBLE_SPENDING")
       (simp_all add: Cons.IH [of "insert (utxoKey (utxoId input)) seen"] count_kind_existence
          count_kind_double count_kind_inner)
qed

lemma count_errors_existence:
  "count_errors UTXO_NOT_FOUND (not_found_message u) (existence_errors pool input) =
     (if utxoId input = u \<and> lookup pool input = None then 1 else 0)"
  by (simp add: count_errors_def existence_errors_def createValidationError_def utxoKey_eq_iff
        not_found_message_def split: option.splits)

lemma count_errors_double:
  "count_errors DOUBLE_SPENDING (double_spending_message u) (double_errors seen input) =
     (if utxoId input = u \<and> utxoKey u \<in> seen then 1 else 0)"
  by (auto simp add: count_errors_def double_errors_def createValidationError_def
        utxoKey_eq_iff double_spending_message_def)

lemma count_errors_signature:
  "count_errors INVALID_SIGNATURE (invalid_signature_message u)
       (signature_errors verify pool payload ins) =
     occurrences u (failed_signatures verify pool payload ins)"
  by (simp add: count_errors_def signature_errors_def createValidationError_def filter_map
        comp_def utxoKey_eq_iff invalid_signature_message_def occurrences_def)

lemma count_double_run:
  "count_errors DOUBLE_SPENDING (double_spending_message u)
       (run_errors verify pool tx seen ins) =
     (if utxoKey u \<in> seen then occurrences u ins else occurrences u ins - 1)"
proof (induction ins arbitrary: seen)
  case Nil
  show ?case by (simp add: occurrences_def)
next
  case (Cons input ins)
  have other:
    "count_errors DOUBLE_SPENDING (double_spending_message u) (existence_errors pool input) = 0"
    "count_errors DOUBLE_SPENDING (double_spending_message u) (inner_errors verify pool tx) = 0"
    by (simp_all add: count_errors_kind_0 count_kind_existence count_kind_inner)
  show ?case
    by (simp add: other Cons.IH count_errors_double occurrences_def utxoKey_eq_iff)
qed

lemma count_not_found_run:
  "count_errors UTXO_NOT_FOUND (not_found_message u) (run_errors verify pool tx seen ins) =
     (if pool (txId u) (outputIndex u) = None then occurrences u ins else 0)"
proof (induction ins arbitrary: seen)
  case Nil
  show ?case by (simp add: occurrences_def)
next
  case (Cons input ins)
  have other:
    "count_errors UTXO_NOT_FOUND (not_found_message u) (double_errors seen input) = 0"
    "count_errors UTXO_NOT_FOUND (not_found_message u) (inner_errors verify pool tx) = 0"
    by (simp_all add: count_errors_kind_0 count_kind_double count_kind_inner)
  show ?case
    by (auto simp add: other Cons.IH count_errors_existence occurrences_def lookup_def)
qed

lemma count_signature_inner:
  "count_errors INVALID_SIGNATURE (invalid_signature_message u) (inner_errors verify pool tx) =
     occurrences u (failed_signatures verify pool (createTransactionDataForSigning tx) (inputs tx))"
  by (simp add: inner_errors_def count_errors_signature count_errors_kind_0 count_kind_output
        count_kind_utxo count_kind_mismatch)

lemma count_signature_run:
  "count_errors INVALID_SIGNATURE (invalid_signature_message u)
       (run_errors verify pool tx seen ins) =
     length ins
     * occurrences u (failed_signatures verify pool (createTransactionDataForSigning tx) (inputs tx))"
proof (induction ins arbitrary: seen)
  case Nil
  show ?case by simp
next
  case (Cons input ins)
  have other:
    "count_errors INVALID_SIGNATURE (invalid_signature_message u) (double_errors seen input) = 0"
    "count_errors INVALID_SIGNATURE (invalid_signature_message u) (existence_errors pool input) = 0"
    by (simp_all add: count_errors_kind_0 count_kind_double count_kind_existence)
  show ?case
    by (simp add: other Cons.IH count_signature_inner)
qed

lemma failed_signatures_unresolved:
  "pool (txId u) (outputIndex u) = None \<Longrightarrow>
     occurrences u (failed_signatures verify pool payload ins) = 0"
  by (auto simp add: occurrences_def failed_signatures_def lookup_def filter_empty_conv)

lemma resolved_skip:
  "lookup pool input = None \<Longrightarrow> resolved pool (xs @ input # ys) = resolved pool (xs @ ys)"
  by (simp add: resolved_def)

lemma failed_signatures_skip:
  "lookup pool input = None \<Longrightarrow>
     failed_signatures verify pool payload (xs @ input # ys) =
     failed_signatures verify pool payload (xs @ ys)"
  by (simp add: failed_signatures_def)

lemma double_run_pool_independent:
  "filter (\<lambda>e. kind e = DOUBLE_SPENDING) (run_errors verify pool tx seen ins) =
     filter (\<lambda>e. kind e = DOUBLE_SPENDING) (run_errors verify' pool' tx' seen ins)"
proof (induction ins arbitrary: seen)
  case Nil
  show ?case by simp
next
  case (Cons input ins)
  have "filter (\<lambda>e. kind e = DOUBLE_SPENDING) (existence_errors p input) = []"
    and "filter (\<lambda>e. kind e = DOUBLE_SPENDING) (inner_errors v p t) = []" for v p t
    by (simp_all add: filter_kind_0 count_kind_existence count_kind_inner)
  then show ?case
    by (simp add: Cons.IH)
qed



text \<open>
  The inner checks sit in the body of the outer loop, so each of their errors is
  reported once for every input of the transaction, and not at all when there is none.
\<close>

lemma amount_mismatch_count:
  "count_kind AMOUNT_MISMATCH (errors (validateTransaction verify pool tx)) =
     (if amounts_balance pool tx then 0 else length (inputs tx))"
  by (subst errors_validateTransaction, subst count_kind_run)
     (simp add: count_kind_inner amounts_balance_def)

lemma negative_amount_count:
  "count_kind NEGATIVE_AMOUNT (errors (validateTransaction verify pool tx)) =
     length (inputs tx)
     * (length (filter (\<lambda>output. amount output \<le> 0) (outputs tx))
        + length (filter (\<lambda>utxo. utxo_amount utxo \<le> 0) (resolved pool (inputs tx))))"
  by (subst errors_validateTransaction, subst count_kind_run) (simp add: count_kind_inner)

lemma invalid_signature_count:
  "count_kind INVALID_SIGNATURE (errors (validateTransaction verify pool tx)) =
     length (inputs tx)
     * length (failed_signatures verify pool (createTransactionDataForSigning tx) (inputs tx))"
  by (subst errors_validateTransaction, subst count_kind_run) (simp add: count_kind_inner)

lemma no_inputs_valid:
  "inputs tx = [] \<Longrightarrow> validateTransaction verify pool tx = \<lparr>valid = True, errors = []\<rparr>"
  by (simp add: validateTransaction_def validateTransaction_call_def
        validateTransaction_body_def initial_state_def result_of_def)

section \<open>The serialisation determines the value\<close>



























section \<open>Properties of the validator\<close>

text \<open>
  C7: when the same UTXO identifier occurs \<open>k \<ge> 2\<close> times among the inputs, the result
  holds exactly \<open>k - 1\<close> \<open>DOUBLE_SPENDING\<close> errors that reference it. The second part
  places them: after the first \<open>n\<close> inputs have been processed, the errors number one
  less than the occurrences among those \<open>n\<close> inputs, so the second occurrence brings the
  first error, the third occurrence the second, and so on.
\<close>

theorem C7_double_spending_count:
  assumes "k = occurrences u (inputs tx)" and "2 \<le> k"
  shows "count_errors DOUBLE_SPENDING (''UTXO used more than once: '' @ utxoKey u)
           (errors (validateTransaction verify pool tx)) = k - 1
       \<and> count_errors DOUBLE_SPENDING (''UTXO used more than once: '' @ utxoKey u)
           (errors_st (fold (input_step verify) (take n (inputs tx)) (initial_state pool tx)))
         = occurrences u (take n (inputs tx)) - 1"
  using assms count_double_run [of u verify pool tx "{}"]
  by (simp add: errors_validateTransaction fold_input_step initial_state_def
        double_spending_message_def)

theorem C7_double_spending_count_witness:
  "occurrences \<lparr>txId = ''tx1'', outputIndex = 0\<rparr> (inputs (make_tx [input_K, input_L, input_K, input_K] [350])) = 3
   \<and> count_errors DOUBLE_SPENDING ''UTXO used more than once: tx1:0''
        (errors (validateTransaction example_verify example_pool
           (make_tx [input_K, input_L, input_K, input_K] [350]))) = 2
   \<and> count_errors DOUBLE_SPENDING ''UTXO used more than once: tx1:0''
        (errors_st (fold (input_step example_verify)
           (take 3 (inputs (make_tx [input_K, input_L, input_K, input_K] [350])))
           (initial_state example_pool (make_tx [input_K, input_L, input_K, input_K] [350])))) = 1"
proof -
  let ?u = "\<lparr>txId = ''tx1'', outputIndex = 0\<rparr>"
  let ?tx = "make_tx [input_K, input_L, input_K, input_K] [350]"
  have k: "3 = occurrences ?u (inputs ?tx)"
    by (simp add: occurrences_def example_defs)
  have two: "2 \<le> (3::nat)"
    by simp
  have key: "utxoKey ?u = ''tx1:0''"
    by (simp add: utxoKey_def show_nat.simps digit_char_def)
  have occ: "occurrences ?u (take 3 (inputs ?tx)) = 2"
    by (simp add: occurrences_def example_defs)
  show ?thesis
    using C7_double_spending_count [OF k two, of example_verify example_pool 3] k
    by (simp add: key occ)
qed

text \<open>
  C10: the double-spend check looks at the identifiers alone. An identifier that the pool
  does not hold and that occurs \<open>k \<ge> 2\<close> times among the inputs is reported by
  \<open>k - 1\<close> \<open>DOUBLE_SPENDING\<close> errors, and each of its \<open>k\<close> occurrences by an
  \<open>UTXO_NOT_FOUND\<close> error of its own. The \<open>DOUBLE_SPENDING\<close> errors of a run are the
  same for any other pool and verifier.
\<close>

theorem C10_double_spending_without_pool:
  assumes "pool (txId u) (outputIndex u) = None"
    and "k = occurrences u (inputs tx)" and "2 \<le> k"
  shows "count_errors DOUBLE_SPENDING (''UTXO used more than once: '' @ utxoKey u)
           (errors (validateTransaction verify pool tx)) = k - 1
       \<and> count_errors UTXO_NOT_FOUND (''UTXO not found: '' @ utxoKey u)
           (errors (validateTransaction verify pool tx)) = k
       \<and> filter (\<lambda>e. kind e = DOUBLE_SPENDING) (errors (validateTransaction verify pool tx))
         = filter (\<lambda>e. kind e = DOUBLE_SPENDING) (errors (validateTransaction verify' pool' tx))"
  using assms count_double_run [of u verify pool tx "{}" "inputs tx"]
    count_not_found_run [of u verify pool tx "{}" "inputs tx"]
    double_run_pool_independent [of verify pool tx "{}" "inputs tx" verify' pool' tx]
  by (simp add: errors_validateTransaction double_spending_message_def not_found_message_def)

theorem C10_double_spending_without_pool_witness:
  "example_pool ''tx9'' 7 = None
   \<and> occurrences \<lparr>txId = ''tx9'', outputIndex = 7\<rparr>
        (inputs (make_tx [input_missing, input_K, input_missing] [100])) = 2
   \<and> count_errors DOUBLE_SPENDING ''UTXO used more than once: tx9:7''
        (errors (validateTransaction example_verify example_pool
           (make_tx [input_missing, input_K, input_missing] [100]))) = 1
   \<and> count_errors UTXO_NOT_FOUND ''UTXO not found: tx9:7''
        (errors (validateTransaction example_verify example_pool
           (make_tx [input_missing, input_K, input_missing] [100]))) = 2
   \<and> filter (\<lambda>e. kind e = DOUBLE_SPENDING)
        (errors (validateTransaction example_verify example_pool
           (make_tx [input_missing, input_K, input_missing] [100])))
      = filter (\<lambda>e. kind e = DOUBLE_SPENDING)
        (errors (validateTransaction (\<lambda>m sg key. False) (\<lambda>t n. None)
           (make_tx [input_missing, input_K, input_missing] [100])))"
proof -
  let ?u = "\<lparr>txId = ''tx9'', outputIndex = 7\<rparr>"
  let ?tx = "make_tx [input_missing, input_K, input_missing] [100]"
  have absent: "example_pool (txId ?u) (outputIndex ?u) = None"
    by (simp add: example_pool_def)
  have k: "2 = occurrences ?u (inputs ?tx)"
    by (simp add: occurrences_def example_defs)
  have two: "2 \<le> (2::nat)"
    by simp
  have key: "utxoKey ?u = ''tx9:7''"
    by (simp add: utxoKey_def show_nat.simps digit_char_def)
  show ?thesis
    using C10_double_spending_without_pool
      [where pool = example_pool and u = ?u and k = 2 and tx = ?tx and verify = example_verify
         and verify' = "\<lambda>m sg key. False" and pool' = "\<lambda>t n. None", OF absent k two]
      k absent
    by (simp add: key)
qed

text \<open>
  C6: an input whose identifier is absent from the pool is reported by exactly one
  \<open>UTXO_NOT_FOUND\<close> error: the errors that reference an absent identifier number its
  occurrences among the inputs, and the \<open>UTXO_NOT_FOUND\<close> errors altogether number the
  unresolved inputs. Such an input adds nothing to \<open>totalInputValue\<close> and meets neither
  the positivity check of the amount nor the signature check: the loop that adds up the
  amounts and the loop that verifies the signatures end in the same total and the same
  state as without it, and no \<open>INVALID_SIGNATURE\<close> error references its identifier.
\<close>

theorem C6_unresolved_input:
  assumes "pool (txId u) (outputIndex u) = None" and "utxoId input = u"
    and "utxoPool s = pool"
  shows "count_errors UTXO_NOT_FOUND (''UTXO not found: '' @ utxoKey u)
           (errors (validateTransaction verify pool tx)) = occurrences u (inputs tx)
       \<and> count_kind UTXO_NOT_FOUND (errors (validateTransaction verify pool tx))
         = length (filter (\<lambda>i. pool (txId (utxoId i)) (outputIndex (utxoId i)) = None)
             (inputs tx))
       \<and> count_errors INVALID_SIGNATURE (''Invalid signature for UTXO: '' @ utxoKey u)
           (errors (validateTransaction verify pool tx)) = 0
       \<and> fold amount_step (xs @ input # ys) (t, s) = fold amount_step (xs @ ys) (t, s)
       \<and> fold (signature_step verify) (xs @ input # ys) s
         = fold (signature_step verify) (xs @ ys) s"
proof -
  have absent: "lookup pool input = None"
    using assms(1,2) by (simp add: lookup_def)
  have "count_errors UTXO_NOT_FOUND (''UTXO not found: '' @ utxoKey u)
           (errors (validateTransaction verify pool tx)) = occurrences u (inputs tx)"
    using assms(1) count_not_found_run [of u verify pool tx "{}" "inputs tx"]
    by (simp add: errors_validateTransaction not_found_message_def)
  moreover have "count_kind UTXO_NOT_FOUND (errors (validateTransaction verify pool tx))
         = length (filter (\<lambda>i. pool (txId (utxoId i)) (outputIndex (utxoId i)) = None)
             (inputs tx))"
    by (subst errors_validateTransaction, subst count_kind_run)
       (simp add: count_kind_inner lookup_def)
  moreover have "count_errors INVALID_SIGNATURE (''Invalid signature for UTXO: '' @ utxoKey u)
           (errors (validateTransaction verify pool tx)) = 0"
    using count_signature_run [of u verify pool tx "{}" "inputs tx"]
      failed_signatures_unresolved [where pool = pool and u = u, OF assms(1)]
    by (simp add: errors_validateTransaction invalid_signature_message_def)
  moreover have "fold amount_step (xs @ input # ys) (t, s) = fold amount_step (xs @ ys) (t, s)"
    using absent
    by (simp only: fold_amount_step total_input_def utxo_errors_def assms(3) resolved_skip)
  moreover have "fold (signature_step verify) (xs @ input # ys) s
         = fold (signature_step verify) (xs @ ys) s"
    using absent
    by (simp only: fold_signature_step signature_errors_def assms(3) failed_signatures_skip)
  ultimately show ?thesis
    by simp
qed

theorem C6_unresolved_input_witness:
  "example_pool ''tx9'' 7 = None
   \<and> count_errors UTXO_NOT_FOUND ''UTXO not found: tx9:7''
        (errors (validateTransaction example_verify example_pool
           (make_tx [input_K, input_missing] [100]))) = 1
   \<and> count_kind UTXO_NOT_FOUND
        (errors (validateTransaction example_verify example_pool
           (make_tx [input_K, input_missing] [100]))) = 1
   \<and> count_errors INVALID_SIGNATURE ''Invalid signature for UTXO: tx9:7''
        (errors (validateTransaction example_verify example_pool
           (make_tx [input_K, input_missing] [100]))) = 0
   \<and> fold amount_step ([input_K] @ input_missing # [])
        (0, initial_state example_pool (make_tx [input_K, input_missing] [100]))
      = fold amount_step ([input_K] @ [])
        (0, initial_state example_pool (make_tx [input_K, input_missing] [100]))
   \<and> fold (signature_step example_verify) ([input_K] @ input_missing # [])
        (initial_state example_pool (make_tx [input_K, input_missing] [100]))
      = fold (signature_step example_verify) ([input_K] @ [])
        (initial_state example_pool (make_tx [input_K, input_missing] [100]))"
proof -
  let ?u = "\<lparr>txId = ''tx9'', outputIndex = 7\<rparr>"
  let ?tx = "make_tx [input_K, input_missing] [100]"
  have absent: "example_pool (txId ?u) (outputIndex ?u) = None"
    by (simp add: example_pool_def)
  have inp: "utxoId input_missing = ?u"
    by (simp add: input_missing_def)
  have st: "utxoPool (initial_state example_pool ?tx) = example_pool"
    by (simp add: initial_state_def)
  have key: "utxoKey ?u = ''tx9:7''"
    by (simp add: utxoKey_def show_nat.simps digit_char_def)
  have occ: "occurrences ?u (inputs ?tx) = 1"
    by (simp add: occurrences_def example_defs)
  have unres: "length (filter (\<lambda>i. example_pool (txId (utxoId i)) (outputIndex (utxoId i)) = None)
                 (inputs ?tx)) = 1"
    by (simp add: example_defs)
  show ?thesis
    using C6_unresolved_input
      [where pool = example_pool and u = ?u and input = input_missing
         and s = "initial_state example_pool ?tx" and verify = example_verify and tx = ?tx
         and xs = "[input_K]" and ys = "[]" and t = 0, OF absent inp st]
      absent
    by (simp only: key occ unres) simp
qed







text \<open>
  C1: a transaction whose totals differ is to be reported by exactly one
  \<open>AMOUNT_MISMATCH\<close> error. The balance check is inside the loop over the inputs: with
  the two inputs \<open>tx1:0\<close> (100) and \<open>tx1:1\<close> (50) and one output of 90 the error is
  reported twice, and with no input and one output of 90 it is not reported.
\<close>

theorem C1_amount_mismatch_per_input:
  "total_input example_pool (inputs (make_tx [input_K, input_L] [90])) = 150
   \<and> total_output (outputs (make_tx [input_K, input_L] [90])) = 90
   \<and> errors (validateTransaction example_verify example_pool (make_tx [input_K, input_L] [90]))
      = [\<lparr>kind = AMOUNT_MISMATCH,
           message = ''Input value 150 is different than output value 90''\<rparr>,
         \<lparr>kind = AMOUNT_MISMATCH,
           message = ''Input value 150 is different than output value 90''\<rparr>]
   \<and> total_input example_pool (inputs (make_tx [] [90])) = 0
   \<and> total_output (outputs (make_tx [] [90])) = 90
   \<and> errors (validateTransaction example_verify example_pool (make_tx [] [90])) = []"
proof -
  have totals: "total_input example_pool (inputs (make_tx [input_K, input_L] [90])) = 150"
    "total_output (outputs (make_tx [input_K, input_L] [90])) = 90"
    "total_input example_pool (inputs (make_tx [] [90])) = 0"
    "total_output (outputs (make_tx [] [90])) = 90"
    by (simp_all add: total_input_def total_output_def resolved_def lookup_def example_defs)
  have two: "errors (validateTransaction example_verify example_pool
        (make_tx [input_K, input_L] [90]))
      = [\<lparr>kind = AMOUNT_MISMATCH,
           message = ''Input value 150 is different than output value 90''\<rparr>,
         \<lparr>kind = AMOUNT_MISMATCH,
           message = ''Input value 150 is different than output value 90''\<rparr>]"
    by (simp add: validator_defs example_defs)
  have none: "errors (validateTransaction example_verify example_pool (make_tx [] [90])) = []"
    by (simp add: validator_defs example_defs)
  show ?thesis
    using totals two none by simp
qed

text \<open>
  C3: a signature that fails is to be reported by one \<open>INVALID_SIGNATURE\<close> error. The
  signature is verified against the recipient of the UTXO, but the loop over the
  signatures is inside the loop over the inputs: with the input \<open>tx1:0\<close> carrying a
  garbage signature and the input \<open>tx1:1\<close> signed by its owner, the one failure is
  reported twice.
\<close>

theorem C3_invalid_signature_per_input:
  "failed_signatures example_verify example_pool
      (createTransactionDataForSigning (make_tx [input_K_garbage, input_L] [150]))
      (inputs (make_tx [input_K_garbage, input_L] [150])) = [input_K_garbage]
   \<and> errors (validateTransaction example_verify example_pool
        (make_tx [input_K_garbage, input_L] [150]))
      = [\<lparr>kind = INVALID_SIGNATURE, message = ''Invalid signature for UTXO: tx1:0''\<rparr>,
         \<lparr>kind = INVALID_SIGNATURE, message = ''Invalid signature for UTXO: tx1:0''\<rparr>]"
proof -
  have failed: "failed_signatures example_verify example_pool
      (createTransactionDataForSigning (make_tx [input_K_garbage, input_L] [150]))
      (inputs (make_tx [input_K_garbage, input_L] [150])) = [input_K_garbage]"
    by (simp add: failed_signatures_def lookup_def example_defs)
  have two: "errors (validateTransaction example_verify example_pool
        (make_tx [input_K_garbage, input_L] [150]))
      = [\<lparr>kind = INVALID_SIGNATURE, message = ''Invalid signature for UTXO: tx1:0''\<rparr>,
         \<lparr>kind = INVALID_SIGNATURE, message = ''Invalid signature for UTXO: tx1:0''\<rparr>]"
    by (simp add: validator_defs example_defs)
  show ?thesis
    using failed two by simp
qed

text \<open>
  C4: an output whose amount is not positive is to be reported by exactly one
  \<open>NEGATIVE_AMOUNT\<close> error, whatever the number of inputs. The loop over the outputs is
  inside the loop over the inputs: with the inputs \<open>tx1:0\<close> and \<open>tx1:1\<close> and the
  outputs 155 and -5 the negative output is reported twice, and with no input it is not
  reported.
\<close>

theorem C4_negative_amount_per_input:
  "errors (validateTransaction example_verify example_pool
        (make_tx [input_K, input_L] [155, - 5]))
      = [\<lparr>kind = NEGATIVE_AMOUNT, message = ''Output amount must be positive: -5''\<rparr>,
         \<lparr>kind = NEGATIVE_AMOUNT, message = ''Output amount must be positive: -5''\<rparr>]
   \<and> errors (validateTransaction example_verify example_pool (make_tx [] [- 5])) = []"
proof -
  have two: "errors (validateTransaction example_verify example_pool
        (make_tx [input_K, input_L] [155, - 5]))
      = [\<lparr>kind = NEGATIVE_AMOUNT, message = ''Output amount must be positive: -5''\<rparr>,
         \<lparr>kind = NEGATIVE_AMOUNT, message = ''Output amount must be positive: -5''\<rparr>]"
    by (simp add: validator_defs example_defs)
  have none: "errors (validateTransaction example_verify example_pool (make_tx [] [- 5])) = []"
    by (simp add: validator_defs example_defs)
  show ?thesis
    using two none by simp
qed

text \<open>
  C5: a transaction without inputs whose outputs add up to a nonzero value is to be
  invalid, since the balance check \<open>0 = 90\<close> fails. Every check is inside the loop over
  the inputs, so none runs: the transaction with no input and one output of 90 is valid.
\<close>

theorem C5_no_inputs_accepted:
  "inputs (make_tx [] [90]) = []
   \<and> total_output (outputs (make_tx [] [90])) = 90
   \<and> validateTransaction example_verify example_pool (make_tx [] [90])
      = \<lparr>valid = True, errors = []\<rparr>"
proof -
  have "validateTransaction example_verify example_pool (make_tx [] [90])
      = \<lparr>valid = True, errors = []\<rparr>"
    by (simp add: validator_defs example_defs)
  then show ?thesis
    by (simp add: total_output_def make_tx_def)
qed

end
